theory Spec2Isabelle
  imports Complex_Main
begin

section \<open>The viewer session of \<^verbatim>\<open>src/index.js\<close>\<close>

text \<open>
  The module is a layer of glue over a 3D engine, its mesh and material loaders and the
  DOM. The embedding keeps what the module itself decides: the lock, which functions are
  handed to which loader, what each of them does to the scene when the loader calls it,
  the camera distance, and the iteration of \<^verbatim>\<open>clearScene\<close>.

  Conventions.
  \<^item> JavaScript numbers that take part in arithmetic are read in the reals; rounding,
    infinities and NaN are outside the model. Byte counts of a progress event are
    naturals.
  \<^item> An engine object has an identity; the field \<open>oid\<close> stands for it, and the
    engine's \<^verbatim>\<open>indexOf\<close> compares it.
  \<^item> An object that the code mutates after storing a reference to it (the loaded
    object, re-centred after \<^verbatim>\<open>scene.add\<close>; a light of the light set that is also a
    child of the scene) is written back among the children, so that the scene shows it
    as the program would.
  \<^item> A property access on \<^verbatim>\<open>undefined\<close> raises a \<^verbatim>\<open>TypeError\<close>; a function that can
    raise returns the state reached together with the error, if any.
  \<^item> The fields of \<^verbatim>\<open>scene.lights\<close> hold distinct objects, and an object that comes from
    the parser is none of the objects the scene already has.
  \<^item> The render loop lets the orbit controller turn the camera on every frame. The
    model does not follow the frames: no statement reads where the camera stands before
    a fit, only what the fit assigns.
  \<^item> What the engine computes from geometry (the bounding box of an object, the size of
    a box) is a parameter of the model.
\<close>

subsection \<open>Engine data\<close>

datatype vec3 = Vector3 (vx: real) (vy: real) (vz: real)

datatype box3 = Box3 (box_min: vec3) (box_max: vec3)

datatype material = MeshPhongMaterial (color: nat) | LoadedMaterial string

text \<open>
  A node of the scene graph: its identity, the \<^verbatim>\<open>type\<close> tag, whether it is an instance
  of \<^verbatim>\<open>THREE.Mesh\<close>, its material (absent when the property is undefined), its position,
  the z component of its rotation, and its children.
\<close>

datatype object3d =
  Object3D (oid: nat) (otype: string) (isMesh: bool) (material: "material option")
    (position: vec3) (rotation_z: real) (obj_children: "object3d list")

record camera =
  fov :: real
  aspect :: real
  near :: real
  far :: real
  cam_position :: vec3

text \<open>The object stored in \<^verbatim>\<open>scene.lights\<close>; a missing property is \<open>None\<close>.\<close>

record light_set =
  keyLight :: "object3d option"
  fillLight :: "object3d option"
  backLight :: "object3d option"
  ambient :: "object3d option"

record dom_element =
  el_id :: nat
  offsetWidth :: real
  offsetHeight :: real

text \<open>
  The scene object as the module uses it: the engine's \<^verbatim>\<open>children\<close> array and the
  properties \<^verbatim>\<open>camera\<close>, \<^verbatim>\<open>lights\<close>, \<^verbatim>\<open>element\<close> and \<^verbatim>\<open>locked\<close> the module adds.
  \<^verbatim>\<open>locked\<close> is only ever tested for truth and assigned \<^verbatim>\<open>true\<close> or \<^verbatim>\<open>false\<close>; the
  undefined of a fresh scene reads as \<open>False\<close>.
\<close>

record session =
  children :: "object3d list"
  camera :: camera
  lights :: light_set
  element :: dom_element
  locked :: bool

record engine =
  setFromObject :: "object3d \<Rightarrow> box3"
  getSize :: "box3 \<Rightarrow> vec3"

subsection \<open>Loaders, errors and what an observer sees\<close>

datatype js_error = TypeError string | LoaderError string

record xhr =
  xhr_loaded :: nat
  xhr_total :: nat

record material_creator =
  mtl_name :: string
  preloaded :: bool

record obj_loader =
  materials :: "material_creator option"

type_synonym callback = string

datatype detail =
  LoadingDetail nat nat
| LoadedDetail object3d
| ErrorDetail js_error

datatype js_arg = ObjArg object3d | ErrArg js_error

text \<open>
  The observable actions, in the order they happen: a \<^verbatim>\<open>CustomEvent\<close> dispatched on an
  element, and a call of the caller's function. The caller's function and the listeners
  are foreign code; they are taken to return normally and to leave the scene alone.
\<close>

datatype effect =
  DispatchEvent dom_element string detail
| Call callback js_arg

record world =
  scene :: session
  effects :: "effect list"

text \<open>
  A call of a loader's \<^verbatim>\<open>load\<close>, with the variables its function arguments close over.
  \<open>MTL_load materialUrl objLoader url callback\<close> is line 262: the material loader gets
  the URL and a completion function, nothing else. \<open>OBJ_load url objLoader material
  callback\<close> is line 281: the mesh loader gets the URL and the three functions of
  \<^verbatim>\<open>loadObj\<close>.
\<close>

datatype request =
  MTL_load string obj_loader string "callback option"
| OBJ_load string obj_loader material "callback option"

text \<open>What a loader may call back with.\<close>

datatype signal =
  MtlDone material_creator
| ObjDone object3d
| Progress xhr
| Failed js_error

datatype load_result = ReturnFalse | ReturnLoader obj_loader

subsection \<open>Scene preparation\<close>

definition emitEvent :: "dom_element \<Rightarrow> string \<Rightarrow> detail \<Rightarrow> world \<Rightarrow> world" where
  "emitEvent el eventName data w = w\<lparr>effects := effects w @ [DispatchEvent el eventName data]\<rparr>"

definition setCamera :: "real \<Rightarrow> camera" where
  "setCamera asp =
     \<lparr>fov = 45, aspect = asp, near = 0.01, far = 1000, cam_position = Vector3 0 0 5\<rparr>"

text \<open>The engine's \<^verbatim>\<open>Vector3.normalize\<close>: division by the length, or by 1 when it is 0.\<close>

definition vec_normalize :: "vec3 \<Rightarrow> vec3" where
  "vec_normalize v =
     (let l = sqrt (vx v * vx v + vy v * vy v + vz v * vz v);
          d = (if l = 0 then 1 else l)
      in Vector3 (vx v / d) (vy v / d) (vz v / d))"

definition new_light :: "nat \<Rightarrow> string \<Rightarrow> vec3 \<Rightarrow> object3d" where
  "new_light i t p = Object3D i t False None p 0 []"

text \<open>
  \<^verbatim>\<open>setLights\<close> adds a back light, a fill light and an ambient light to the scene and
  stores \<^verbatim>\<open>{ambient}\<close> as \<^verbatim>\<open>scene.lights\<close>. Colour and intensity are not modelled; the
  three new objects get the identities 1, 2 and 3.
\<close>

definition setLights :: "session \<Rightarrow> session" where
  "setLights s =
     (let amb = new_light 3 ''AmbientLight'' (Vector3 0 0 0);
          back = new_light 1 ''DirectionalLight'' (vec_normalize (Vector3 100 0 (- 100)));
          fill = new_light 2 ''DirectionalLight'' (Vector3 100 0 100)
      in s\<lparr>children := children s @ [back, fill, amb],
            lights := \<lparr>keyLight = None, fillLight = None, backLight = None,
                        ambient = Some amb\<rparr>\<rparr>)"

text \<open>
  \<^verbatim>\<open>prepareScene\<close>, as far as the scene object goes: renderer, controls, render loop and
  resize listener are wiring of the engine and the browser. The \<open>camera\<close> field is the
  camera as \<^verbatim>\<open>setCamera\<close> made it: its field of view and planes stay, its position is
  turned by the controller from the first frame on, which this definition leaves out.
  Before \<^verbatim>\<open>setLights\<close> runs the new scene has no children and no \<^verbatim>\<open>lights\<close> property.
  (For a container of height 0 the aspect is an infinity or NaN in JavaScript and 0 here;
  nothing below reads it.)
\<close>

definition prepareScene :: "dom_element \<Rightarrow> session" where
  "prepareScene domElement =
     (let width = offsetWidth domElement;
          height = offsetHeight domElement;
          cam = setCamera (width / height);
          s = setLights \<lparr>children = [], camera = cam,
                lights = \<lparr>keyLight = None, fillLight = None, backLight = None, ambient = None\<rparr>,
                element = domElement, locked = False\<rparr>
      in s\<lparr>camera := cam, element := domElement\<rparr>)"

subsection \<open>Clearing the scene\<close>

text \<open>
  The engine's \<^verbatim>\<open>indexOf\<close> on the children array (by identity), \<^verbatim>\<open>splice(index, 1)\<close>,
  and \<^verbatim>\<open>Object3D.remove\<close>, which splices the object out when it is a child and does
  nothing otherwise.
\<close>

fun indexOf :: "object3d list \<Rightarrow> object3d \<Rightarrow> nat option" where
  "indexOf [] obj = None"
| "indexOf (c # cs) obj =
     (if oid c = oid obj then Some 0 else map_option Suc (indexOf cs obj))"

definition splice1 :: "nat \<Rightarrow> 'a list \<Rightarrow> 'a list" where
  "splice1 i xs = take i xs @ drop (Suc i) xs"

definition remove :: "object3d \<Rightarrow> object3d list \<Rightarrow> object3d list" where
  "remove obj cs = (case indexOf cs obj of None \<Rightarrow> cs | Some i \<Rightarrow> splice1 i cs)"

text \<open>
  \<^verbatim>\<open>Array.prototype.forEach\<close>: the length is read once, before the first call; the index
  runs from 0 up to it; an index the array no longer has is passed over. The function
  called sees, and may change, the array that is being walked.
\<close>

function forEach_from :: "('a \<Rightarrow> 'a list \<Rightarrow> 'a list) \<Rightarrow> nat \<Rightarrow> nat \<Rightarrow> 'a list \<Rightarrow> 'a list" where
  "forEach_from f k len xs =
     (if k < len
      then (if k < length xs then forEach_from f (Suc k) len (f (xs ! k) xs)
            else forEach_from f (Suc k) len xs)
      else xs)"
  by pat_completeness auto
termination
  by (relation "measure (\<lambda>(f, k, len, xs). len - k)") auto

declare forEach_from.simps [simp del]

definition forEach :: "('a \<Rightarrow> 'a list \<Rightarrow> 'a list) \<Rightarrow> 'a list \<Rightarrow> 'a list" where
  "forEach f xs = forEach_from f 0 (length xs) xs"

definition clearScene :: "session \<Rightarrow> session" where
  "clearScene s =
     s\<lparr>children :=
         forEach (\<lambda>obj cs. if otype obj = ''Group'' then remove obj cs else cs) (children s)\<rparr>"

subsection \<open>Fitting the camera\<close>

definition set_position :: "object3d \<Rightarrow> vec3 \<Rightarrow> object3d" where
  "set_position obj p =
     Object3D (oid obj) (otype obj) (isMesh obj) (material obj) p (rotation_z obj)
       (obj_children obj)"

text \<open>
  \<^verbatim>\<open>resetObjectPosition\<close> recomputes the box it was given, then assigns the three
  coordinates of the object's position and its z rotation.
\<close>

definition resetObjectPosition :: "engine \<Rightarrow> box3 \<Rightarrow> object3d \<Rightarrow> box3 \<times> object3d" where
  "resetObjectPosition eng boundingBox0 obj =
     (let boundingBox = setFromObject eng obj;
          size = getSize eng boundingBox;
          p = Vector3 (- vx (box_min boundingBox) - vx size / 2)
                      (- vy (box_min boundingBox) - vy size / 2)
                      (- vz (box_min boundingBox) - vz size / 2)
      in (boundingBox,
          Object3D (oid obj) (otype obj) (isMesh obj) (material obj) p 0 (obj_children obj)))"

record fit =
  fit_camera :: camera
  fit_object :: object3d
  fit_lights :: light_set
  fit_moved :: "object3d list"
  fit_error :: "js_error option"

text \<open>
  \<^verbatim>\<open>fitCameraToObject\<close>. The camera is moved first; then the three lights are read from
  the light set, one after the other, and each read of a missing light raises.
  \<open>fit_moved\<close> lists the lights that were moved, in the order of the source.
\<close>

definition fitCameraToObject :: "engine \<Rightarrow> camera \<Rightarrow> object3d \<Rightarrow> light_set \<Rightarrow> fit" where
  "fitCameraToObject eng cam obj lts =
     (let fov' = fov cam;
          (boundingBox, obj') = resetObjectPosition eng (setFromObject eng obj) obj;
          size = getSize eng boundingBox;
          cameraZ = \<bar>vy size / 2 * tan (fov' * 2)\<bar>;
          z = max cameraZ (vz size) * 1.5;
          cam' = cam\<lparr>cam_position :=
                   Vector3 (vx (cam_position cam)) (vy (cam_position cam)) z\<rparr>
      in case keyLight lts of
           None \<Rightarrow>
             \<lparr>fit_camera = cam', fit_object = obj', fit_lights = lts, fit_moved = [],
              fit_error = Some (TypeError ''keyLight'')\<rparr>
         | Some key \<Rightarrow>
             (let key' = set_position key (Vector3 (- z) 0 z);
                  lts1 = lts\<lparr>keyLight := Some key'\<rparr>
              in case fillLight lts1 of
                   None \<Rightarrow>
                     \<lparr>fit_camera = cam', fit_object = obj', fit_lights = lts1,
                      fit_moved = [key'], fit_error = Some (TypeError ''fillLight'')\<rparr>
                 | Some fill \<Rightarrow>
                     (let fill' = set_position fill (Vector3 z 0 z);
                          lts2 = lts1\<lparr>fillLight := Some fill'\<rparr>
                      in case backLight lts2 of
                           None \<Rightarrow>
                             \<lparr>fit_camera = cam', fit_object = obj', fit_lights = lts2,
                              fit_moved = [key', fill'],
                              fit_error = Some (TypeError ''backLight'')\<rparr>
                         | Some back \<Rightarrow>
                             (let back' = set_position back (Vector3 z 0 (- z))
                              in \<lparr>fit_camera = cam', fit_object = obj',
                                  fit_lights = lts2\<lparr>backLight := Some back'\<rparr>,
                                  fit_moved = [key', fill', back'],
                                  fit_error = None\<rparr>))))"

subsection \<open>Loading\<close>

text \<open>
  The engine's \<^verbatim>\<open>traverse\<close>: the function is applied to the node, then to the nodes below
  it. The function changes a node in place and leaves its list of children alone.
\<close>

fun traverse :: "(object3d \<Rightarrow> object3d) \<Rightarrow> object3d \<Rightarrow> object3d" where
  "traverse f (Object3D i t m mat p r cs) =
     (let n = f (Object3D i t m mat p r cs)
      in Object3D (oid n) (otype n) (isMesh n) (material n) (position n) (rotation_z n)
           (map (traverse f) cs))"

definition set_material :: "object3d \<Rightarrow> material \<Rightarrow> object3d" where
  "set_material obj mat =
     Object3D (oid obj) (otype obj) (isMesh obj) (Some mat) (position obj) (rotation_z obj)
       (obj_children obj)"

text \<open>
  The function \<^verbatim>\<open>loadObj\<close> traverses with (line 285): a mesh gets the material, whatever
  it had; any other node is left as it is.
\<close>

definition applyMaterial :: "material \<Rightarrow> object3d \<Rightarrow> object3d" where
  "applyMaterial mat child = (if isMesh child then set_material child mat else child)"

text \<open>
  \<^verbatim>\<open>scene.add\<close> for an object that comes from the parser and so has no parent yet: it
  becomes the last child.
\<close>

definition add :: "object3d \<Rightarrow> session \<Rightarrow> session" where
  "add obj s = s\<lparr>children := children s @ [obj]\<rparr>"

text \<open>
  Every reference to an object sees what was done to it: among the children, the child
  that is the object shows the object as it now is. For several objects, in the order
  they were changed.
\<close>

definition write_back :: "object3d \<Rightarrow> object3d list \<Rightarrow> object3d list" where
  "write_back obj cs = map (\<lambda>c. if oid c = oid obj then obj else c) cs"

definition write_back_all :: "object3d list \<Rightarrow> object3d list \<Rightarrow> object3d list" where
  "write_back_all objs cs = fold write_back objs cs"

text \<open>\<^verbatim>\<open>if (callback) callback(arg)\<close>.\<close>

definition invoke :: "callback option \<Rightarrow> js_arg \<Rightarrow> world \<Rightarrow> world" where
  "invoke callback arg w =
     (case callback of None \<Rightarrow> w | Some cb \<Rightarrow> w\<lparr>effects := effects w @ [Call cb arg]\<rparr>)"

text \<open>
  The three functions \<^verbatim>\<open>loadObj\<close> passes to the mesh loader, in the order of the source:
  completion (line 281), progress (line 298), error (line 311). In the first, the camera
  fit changes the loaded object and the lights it moves; the children of the scene show
  both.
\<close>

definition loadObj_onLoad ::
  "engine \<Rightarrow> obj_loader \<Rightarrow> material \<Rightarrow> callback option \<Rightarrow> object3d \<Rightarrow> world
     \<Rightarrow> world \<times> js_error option" where
  "loadObj_onLoad eng objLoader mat callback obj w =
     (let obj1 = (if materials objLoader = None
                  then traverse (applyMaterial mat) obj
                  else obj);
          s1 = add obj1 (scene w);
          r = fitCameraToObject eng (camera s1) obj1 (lights s1);
          obj2 = fit_object r;
          s2 = s1\<lparr>children := write_back obj2 (write_back_all (fit_moved r) (children s1)),
                  camera := fit_camera r, lights := fit_lights r\<rparr>
      in case fit_error r of
           Some e \<Rightarrow> (w\<lparr>scene := s2\<rparr>, Some e)
         | None \<Rightarrow>
             (let w3 = w\<lparr>scene := s2\<lparr>locked := False\<rparr>\<rparr>;
                  w4 = invoke callback (ObjArg obj2) w3
              in (emitEvent (element (scene w4)) ''loaded'' (LoadedDetail obj2) w4, None)))"

definition loadObj_onProgress :: "xhr \<Rightarrow> world \<Rightarrow> world" where
  "loadObj_onProgress x w =
     (if xhr_total x = 0
      then emitEvent (element (scene w)) ''loading'' (LoadingDetail 0 100) w
      else emitEvent (element (scene w)) ''loading'' (LoadingDetail (xhr_loaded x) (xhr_total x)) w)"

definition loadObj_onError :: "callback option \<Rightarrow> js_error \<Rightarrow> world \<Rightarrow> world" where
  "loadObj_onError callback err w =
     invoke callback (ErrArg err) (emitEvent (element (scene w)) ''error'' (ErrorDetail err) w)"

text \<open>
  \<^verbatim>\<open>loadObj\<close> makes the grey material (colour \<^verbatim>\<open>0xbbbbcc\<close>) and calls the mesh loader's
  \<^verbatim>\<open>load\<close>; nothing else happens until the loader calls back.
\<close>

definition loadObj :: "obj_loader \<Rightarrow> string \<Rightarrow> callback option \<Rightarrow> request" where
  "loadObj objLoader url callback = OBJ_load url objLoader (MeshPhongMaterial 12303308) callback"

text \<open>A loader as its constructor leaves it: no materials set.\<close>

definition new_OBJLoader :: obj_loader where
  "new_OBJLoader = \<lparr>materials = None\<rparr>"

text \<open>
  The completion function \<^verbatim>\<open>loadObject\<close> passes to the material loader (line 262):
  \<^verbatim>\<open>preload\<close>, \<^verbatim>\<open>setMaterials\<close>, then \<^verbatim>\<open>loadObj\<close>.
\<close>

definition loadObject_onLoad ::
  "obj_loader \<Rightarrow> string \<Rightarrow> callback option \<Rightarrow> material_creator \<Rightarrow> request" where
  "loadObject_onLoad objLoader url callback mats =
     (let mats' = mats\<lparr>preloaded := True\<rparr>;
          objLoader' = objLoader\<lparr>materials := Some mats'\<rparr>
      in loadObj objLoader' url callback)"

text \<open>\<^verbatim>\<open>if (materialUrl)\<close>: undefined, null and the empty string are false.\<close>

definition truthy :: "string option \<Rightarrow> bool" where
  "truthy u = (case u of None \<Rightarrow> False | Some v \<Rightarrow> v \<noteq> [])"

text \<open>
  \<^verbatim>\<open>loadObject\<close> returns \<^verbatim>\<open>false\<close> or the mesh loader, and the request it has made of a
  loader, if any.
\<close>

definition loadObject ::
  "world \<Rightarrow> string \<Rightarrow> string option \<Rightarrow> callback option
     \<Rightarrow> load_result \<times> world \<times> request option" where
  "loadObject w url materialUrl callback =
     (let objLoader = new_OBJLoader
      in if locked (scene w) then (ReturnFalse, w, None)
         else (let w1 = w\<lparr>scene := (scene w)\<lparr>locked := True\<rparr>\<rparr>
               in if truthy materialUrl
                  then (ReturnLoader objLoader, w1,
                        Some (MTL_load (the materialUrl) objLoader url callback))
                  else (ReturnLoader objLoader, w1, Some (loadObj objLoader url callback))))"

text \<open>
  A loader calls back: which function of the request runs, what it leaves behind, which
  request is outstanding afterwards, and the error it raised, if any. The material
  loader was given no progress and no error function, so on those it calls nothing.
\<close>

fun deliver :: "engine \<Rightarrow> request \<Rightarrow> signal \<Rightarrow> world \<Rightarrow> world \<times> request \<times> js_error option" where
  "deliver eng (MTL_load materialUrl objLoader url callback) (MtlDone mats) w =
     (w, loadObject_onLoad objLoader url callback mats, None)"
| "deliver eng (MTL_load materialUrl objLoader url callback) sig w =
     (w, MTL_load materialUrl objLoader url callback, None)"
| "deliver eng (OBJ_load url objLoader mat callback) (ObjDone obj) w =
     (case loadObj_onLoad eng objLoader mat callback obj w of
        (w', e) \<Rightarrow> (w', OBJ_load url objLoader mat callback, e))"
| "deliver eng (OBJ_load url objLoader mat callback) (Progress x) w =
     (loadObj_onProgress x w, OBJ_load url objLoader mat callback, None)"
| "deliver eng (OBJ_load url objLoader mat callback) (Failed err) w =
     (loadObj_onError callback err w, OBJ_load url objLoader mat callback, None)"
| "deliver eng (OBJ_load url objLoader mat callback) (MtlDone mats) w =
     (w, OBJ_load url objLoader mat callback, None)"

text \<open>
  The calls a loader makes during one load, in order. An error raised by one of the
  module's functions leaves the module; the run stops there.
\<close>

fun run :: "engine \<Rightarrow> request \<Rightarrow> signal list \<Rightarrow> world \<Rightarrow> world \<times> js_error option" where
  "run eng req [] w = (w, None)"
| "run eng req (sig # sigs) w =
     (case deliver eng req sig w of
        (w', req', None) \<Rightarrow> run eng req' sigs w'
      | (w', req', Some e) \<Rightarrow> (w', Some e))"

text \<open>The events among the observable actions, by name and payload.\<close>

fun notifications :: "effect list \<Rightarrow> (string \<times> detail) list" where
  "notifications [] = []"
| "notifications (DispatchEvent el name d # es) = (name, d) # notifications es"
| "notifications (Call cb a # es) = notifications es"

text \<open>
  One load from the caller's side: the call of \<^verbatim>\<open>loadObject\<close>, then the calls the
  loaders make on the request it left, if it left one.
\<close>

definition load ::
  "engine \<Rightarrow> world \<Rightarrow> string \<Rightarrow> string option \<Rightarrow> callback option \<Rightarrow> signal list
     \<Rightarrow> world \<times> js_error option" where
  "load eng w url materialUrl callback sigs =
     (case loadObject w url materialUrl callback of
        (res, w1, None) \<Rightarrow> (w1, None)
      | (res, w1, Some req) \<Rightarrow> run eng req sigs w1)"

subsection \<open>Notions used to state the properties\<close>

text \<open>The nodes of a graph, the root first.\<close>

fun nodes :: "object3d \<Rightarrow> object3d list" where
  "nodes (Object3D i t m mat p r cs) = Object3D i t m mat p r cs # concat (map nodes cs)"

text \<open>
  What one pass of \<^verbatim>\<open>clearScene\<close> leaves of a list of distinct children: a group is
  dropped and the child behind it is kept without being looked at.
\<close>

fun survivors :: "object3d list \<Rightarrow> object3d list" where
  "survivors [] = []"
| "survivors [x] = (if otype x = ''Group'' then [] else [x])"
| "survivors (x # y # ys) =
     (if otype x = ''Group'' then y # survivors ys else x # survivors (y # ys))"

text \<open>
  A list in which every group is directly followed by a child that is not a group: it
  has no two adjacent groups and does not end in a group.
\<close>

fun isolated :: "object3d list \<Rightarrow> bool" where
  "isolated [] = True"
| "isolated [x] = (otype x \<noteq> ''Group'')"
| "isolated (x # y # ys) =
     (if otype x = ''Group'' then otype y \<noteq> ''Group'' \<and> isolated ys else isolated (y # ys))"

subsection \<open>Sample inputs\<close>

definition container :: dom_element where
  "container = \<lparr>el_id = 0, offsetWidth = 800, offsetHeight = 600\<rparr>"

definition fresh_world :: world where
  "fresh_world = \<lparr>scene = prepareScene container, effects = []\<rparr>"

definition group :: "nat \<Rightarrow> object3d" where
  "group i = Object3D i ''Group'' False None (Vector3 0 0 0) 0 []"

text \<open>A parsed file: a group holding one mesh that has a material of its own.\<close>

definition cube :: object3d where
  "cube = Object3D 10 ''Group'' False None (Vector3 0 0 0) 0
            [Object3D 11 ''Mesh'' True (Some (LoadedMaterial ''wood'')) (Vector3 0 0 0) 0 []]"

text \<open>An engine that measures every object as the cube from -1 to 1 on each axis.\<close>

definition cube_engine :: engine where
  "cube_engine =
     \<lparr>setFromObject = (\<lambda>obj. Box3 (Vector3 (- 1) (- 1) (- 1)) (Vector3 1 1 1)),
      getSize = (\<lambda>b. Vector3 (vx (box_max b) - vx (box_min b))
                              (vy (box_max b) - vy (box_min b))
                              (vz (box_max b) - vz (box_min b)))\<rparr>"

text \<open>
  A prepared scene whose caller has completed the light set with the two directional
  lights of the scene and a new key light:
  \<^verbatim>\<open>scene.lights.backLight = scene.children[0]\<close>,
  \<^verbatim>\<open>scene.lights.fillLight = scene.children[1]\<close>,
  \<^verbatim>\<open>scene.lights.keyLight = new THREE.DirectionalLight()\<close>, placed at (-100, 0, 100).
\<close>

definition lit_scene :: session where
  "lit_scene =
     (let s = prepareScene container
      in s\<lparr>lights := (lights s)
            \<lparr>keyLight := Some (new_light 4 ''DirectionalLight'' (Vector3 (- 100) 0 100)),
             fillLight := Some (children s ! 1),
             backLight := Some (children s ! 0)\<rparr>\<rparr>)"

definition lit_world :: world where
  "lit_world = \<lparr>scene = lit_scene, effects = []\<rparr>"

section \<open>Properties\<close>

subsection \<open>One pass of clearScene\<close>

lemma forEach_from_beyond: "length xs \<le> k \<Longrightarrow> forEach_from f k len xs = xs"
proof (induction f k len xs rule: forEach_from.induct)
  case (1 f k len xs)
  show ?case
  proof (cases "k < len")
    case True
    with 1 have "forEach_from f (Suc k) len xs = xs" by simp
    with True 1 show ?thesis by (subst forEach_from.simps) simp
  next
    case False
    then show ?thesis by (subst forEach_from.simps) simp
  qed
qed

lemma indexOf_at:
  "oid x \<notin> oid ` set pre \<Longrightarrow> indexOf (pre @ x # xs) x = Some (length pre)"
  by (induction pre) auto

lemma remove_at:
  "oid x \<notin> oid ` set pre \<Longrightarrow> remove x (pre @ x # xs) = pre @ xs"
  by (simp add: remove_def indexOf_at splice1_def)

lemma forEach_from_survivors:
  "distinct (map oid (pre @ rest)) \<Longrightarrow> length pre + length rest \<le> len \<Longrightarrow>
   forEach_from (\<lambda>obj cs. if otype obj = ''Group'' then remove obj cs else cs)
     (length pre) len (pre @ rest) = pre @ survivors rest"
proof (induction rest arbitrary: pre rule: survivors.induct)
  case 1
  then show ?case by (simp add: forEach_from_beyond)
next
  case (2 x)
  then have "oid x \<notin> oid ` set pre" by auto
  then have "remove x (pre @ [x]) = pre" using remove_at [of x pre "[]"] by simp
  with 2 show ?case
    by (subst forEach_from.simps) (simp add: forEach_from_beyond)
next
  case (3 x y ys)
  let ?f = "\<lambda>obj cs. if otype obj = ''Group'' then remove obj cs else cs"
  from 3(3) have fresh: "oid x \<notin> oid ` set pre" by auto
  have lt: "length pre < len" "length pre < length (pre @ x # y # ys)" using 3(4) by auto
  show ?case
  proof (cases "otype x = ''Group''")
    case True
    have d: "distinct (map oid ((pre @ [y]) @ ys))" using 3(3) by auto
    have l: "length (pre @ [y]) + length ys \<le> len" using 3(4) by simp
    have "forEach_from ?f (length (pre @ [y])) len ((pre @ [y]) @ ys) = (pre @ [y]) @ survivors ys"
      using "3.IH"(1) [OF True d l] .
    then have step: "forEach_from ?f (Suc (length pre)) len (pre @ y # ys) = pre @ y # survivors ys"
      by simp
    have "forEach_from ?f (length pre) len (pre @ x # y # ys)
        = forEach_from ?f (Suc (length pre)) len (?f ((pre @ x # y # ys) ! length pre) (pre @ x # y # ys))"
      using lt by (subst forEach_from.simps) simp
    also have "(pre @ x # y # ys) ! length pre = x" by simp
    also have "?f x (pre @ x # y # ys) = pre @ y # ys" using True fresh by (simp add: remove_at)
    finally show ?thesis using step True by simp
  next
    case False
    have d: "distinct (map oid ((pre @ [x]) @ y # ys))" using 3(3) by auto
    have l: "length (pre @ [x]) + length (y # ys) \<le> len" using 3(4) by simp
    have "forEach_from ?f (length (pre @ [x])) len ((pre @ [x]) @ y # ys) = (pre @ [x]) @ survivors (y # ys)"
      using "3.IH"(2) [OF False d l] .
    then have step: "forEach_from ?f (Suc (length pre)) len (pre @ x # y # ys) = pre @ x # survivors (y # ys)"
      by simp
    have "forEach_from ?f (length pre) len (pre @ x # y # ys)
        = forEach_from ?f (Suc (length pre)) len (?f ((pre @ x # y # ys) ! length pre) (pre @ x # y # ys))"
      using lt by (subst forEach_from.simps) simp
    also have "(pre @ x # y # ys) ! length pre = x" by simp
    also have "?f x (pre @ x # y # ys) = pre @ x # y # ys" using False by simp
    finally show ?thesis using step False by simp
  qed
qed

lemma clearScene_survivors:
  "distinct (map oid (children s)) \<Longrightarrow> children (clearScene s) = survivors (children s)"
  using forEach_from_survivors [of "[]" "children s" "length (children s)"]
  by (simp add: clearScene_def forEach_def)

lemma survivors_subset: "set (survivors cs) \<subseteq> set cs"
  by (induction cs rule: survivors.induct) auto

lemma survivors_keeps_others:
  "filter (\<lambda>c. otype c \<noteq> ''Group'') (survivors cs) = filter (\<lambda>c. otype c \<noteq> ''Group'') cs"
  by (induction cs rule: survivors.induct) auto

lemma survivors_isolated:
  "isolated pre \<Longrightarrow> survivors (pre @ rest) = filter (\<lambda>c. otype c \<noteq> ''Group'') pre @ survivors rest"
proof (induction pre rule: isolated.induct)
  case 1 then show ?case by simp
next
  case (2 x) then show ?case by (cases rest) auto
next
  case (3 x y ys) then show ?case by (auto split: if_splits)
qed

lemma first_adjacent_groups:
  assumes "cs = a @ x # y # b" and "otype x = ''Group''" and "otype y = ''Group''"
  shows "\<exists>pre g1 g2 post. cs = pre @ g1 # g2 # post \<and> otype g1 = ''Group'' \<and>
           otype g2 = ''Group'' \<and> isolated pre"
  using assms
proof (induction cs arbitrary: a rule: isolated.induct)
  case 1
  then show ?case by simp
next
  case (2 c)
  then show ?case by simp
next
  case (3 c d ds)
  show ?case
  proof (cases "otype c = ''Group''")
    case True
    show ?thesis
    proof (cases "otype d = ''Group''")
      case True
      with \<open>otype c = ''Group''\<close> have "c # d # ds = [] @ c # d # ds \<and> otype c = ''Group'' \<and>
           otype d = ''Group'' \<and> isolated []" by simp
      then show ?thesis by blast
    next
      case False
      with 3(3,4,5) True obtain a' where a': "ds = a' @ x # y # b"
        by (cases a; cases "tl a") auto
      from "3.IH"(1) [OF True a' 3(4,5)]
      obtain pre g1 g2 post where p: "ds = pre @ g1 # g2 # post" "otype g1 = ''Group''"
           "otype g2 = ''Group''" "isolated pre" by blast
      then have "c # d # ds = (c # d # pre) @ g1 # g2 # post \<and> otype g1 = ''Group'' \<and>
           otype g2 = ''Group'' \<and> isolated (c # d # pre)"
        using True False by simp
      then show ?thesis by blast
    qed
  next
    case False
    with 3(3,4) obtain a' where a': "d # ds = a' @ x # y # b"
      by (cases a) auto
    from "3.IH"(2) [OF False a' 3(4,5)]
    obtain pre g1 g2 post where p: "d # ds = pre @ g1 # g2 # post" "otype g1 = ''Group''"
           "otype g2 = ''Group''" "isolated pre" by blast
    have "isolated (c # pre)"
      using False p(4) by (cases pre) simp_all
    with p have "c # d # ds = (c # pre) @ g1 # g2 # post \<and> otype g1 = ''Group'' \<and>
           otype g2 = ''Group'' \<and> isolated (c # pre)"
      by simp
    then show ?thesis by blast
  qed
qed

lemma clearScene_first_pair:
  assumes c: "children s = pre @ g1 # g2 # post"
    and g1: "otype g1 = ''Group''"
    and first: "isolated pre"
    and d: "distinct (map oid (children s))"
  shows "children (clearScene s) =
           filter (\<lambda>c. otype c \<noteq> ''Group'') pre @ g2 # survivors post"
proof -
  have "children (clearScene s) = survivors (pre @ g1 # g2 # post)"
    using clearScene_survivors [OF d] c by simp
  also have "\<dots> = filter (\<lambda>c. otype c \<noteq> ''Group'') pre @ survivors (g1 # g2 # post)"
    using first by (rule survivors_isolated)
  also have "survivors (g1 # g2 # post) = g2 # survivors post"
    using g1 by simp
  finally show ?thesis .
qed

text \<open>
  Whenever two groups are adjacent among distinct children, some pair of adjacent groups
  loses its first and keeps its second: a group is left in the scene.
\<close>

lemma clearScene_adjacent_groups_one_survives:
  assumes "children s = a @ x # y # b" and "otype x = ''Group''" and "otype y = ''Group''"
    and d: "distinct (map oid (children s))"
  shows "\<exists>pre g1 g2 post. children s = pre @ g1 # g2 # post \<and>
           otype g1 = ''Group'' \<and> otype g2 = ''Group'' \<and>
           g2 \<in> set (children (clearScene s)) \<and> g1 \<notin> set (children (clearScene s))"
proof -
  from first_adjacent_groups [OF assms(1,2,3)]
  obtain pre g1 g2 post where p: "children s = pre @ g1 # g2 # post" "otype g1 = ''Group''"
      "otype g2 = ''Group''" "isolated pre"
    by blast
  have r: "children (clearScene s) =
      filter (\<lambda>c. otype c \<noteq> ''Group'') pre @ g2 # survivors post"
    using clearScene_first_pair [OF p(1,2,4) d] .
  have "distinct (map oid (pre @ g1 # g2 # post))"
    using d p(1) by simp
  then have "g1 \<notin> set pre" "g1 \<noteq> g2" "g1 \<notin> set post"
    by auto
  moreover have "set (survivors post) \<subseteq> set post"
    by (rule survivors_subset)
  ultimately have "g2 \<in> set (children (clearScene s)) \<and> g1 \<notin> set (children (clearScene s))"
    using r by auto
  with p show ?thesis by blast
qed

subsection \<open>The prepared scene\<close>

lemma prepareScene_lights:
  "lights (prepareScene el) = \<lparr>keyLight = None, fillLight = None, backLight = None,
      ambient = Some (new_light 3 ''AmbientLight'' (Vector3 0 0 0))\<rparr>"
  by (simp add: prepareScene_def setLights_def Let_def)

lemma prepareScene_locked: "locked (prepareScene el) = False"
  by (simp add: prepareScene_def setLights_def Let_def)

lemma prepareScene_element: "element (prepareScene el) = el"
  by (simp add: prepareScene_def setLights_def Let_def)

lemma prepareScene_camera: "camera (prepareScene el) = setCamera (offsetWidth el / offsetHeight el)"
  by (simp add: prepareScene_def setLights_def Let_def)

lemma prepareScene_oids: "map oid (children (prepareScene el)) = [1, 2, 3]"
  by (simp add: prepareScene_def setLights_def Let_def new_light_def)

lemma prepareScene_types:
  "map otype (children (prepareScene el)) = [''DirectionalLight'', ''DirectionalLight'', ''AmbientLight'']"
  by (simp add: prepareScene_def setLights_def Let_def new_light_def)

lemma lit_scene_fields:
  "keyLight (lights lit_scene) = Some (new_light 4 ''DirectionalLight'' (Vector3 (- 100) 0 100))"
  "fillLight (lights lit_scene) = Some (new_light 2 ''DirectionalLight'' (Vector3 100 0 100))"
  "backLight (lights lit_scene) =
     Some (new_light 1 ''DirectionalLight'' (vec_normalize (Vector3 100 0 (- 100))))"
  "locked lit_scene = False"
  "element lit_scene = container"
  "children lit_scene = children (prepareScene container)"
  "camera lit_scene = camera (prepareScene container)"
  by (simp_all add: lit_scene_def prepareScene_def setLights_def Let_def)

subsection \<open>The camera fit\<close>

lemma reset_fields:
  "oid (snd (resetObjectPosition eng b obj)) = oid obj"
  "otype (snd (resetObjectPosition eng b obj)) = otype obj"
  "isMesh (snd (resetObjectPosition eng b obj)) = isMesh obj"
  "material (snd (resetObjectPosition eng b obj)) = material obj"
  "obj_children (snd (resetObjectPosition eng b obj)) = obj_children obj"
  "fst (resetObjectPosition eng b obj) = setFromObject eng obj"
  by (simp_all add: resetObjectPosition_def Let_def)

lemma fit_object_reset:
  "fit_object (fitCameraToObject eng cam obj lts) =
     snd (resetObjectPosition eng (setFromObject eng obj) obj)"
  by (simp add: fitCameraToObject_def Let_def split: prod.splits option.splits)

lemma fit_camera_position:
  "fit_camera (fitCameraToObject eng cam obj lts) =
     cam\<lparr>cam_position := Vector3 (vx (cam_position cam)) (vy (cam_position cam))
       (max \<bar>vy (getSize eng (setFromObject eng obj)) / 2 * tan (fov cam * 2)\<bar>
            (vz (getSize eng (setFromObject eng obj))) * 1.5)\<rparr>"
  by (simp add: fitCameraToObject_def resetObjectPosition_def Let_def split: prod.splits option.splits)

lemma fit_no_key:
  "keyLight lts = None \<Longrightarrow>
   fit_error (fitCameraToObject eng cam obj lts) = Some (TypeError ''keyLight'') \<and>
   fit_lights (fitCameraToObject eng cam obj lts) = lts \<and>
   fit_moved (fitCameraToObject eng cam obj lts) = []"
  by (simp add: fitCameraToObject_def Let_def split: prod.splits)

lemma fit_all_lights:
  assumes "keyLight lts = Some key" and "fillLight lts = Some fill" and "backLight lts = Some back"
  shows "fit_error (fitCameraToObject eng cam obj lts) = None"
    and "fit_lights (fitCameraToObject eng cam obj lts) =
      (let z = vz (cam_position (fit_camera (fitCameraToObject eng cam obj lts)))
       in lts\<lparr>keyLight := Some (set_position key (Vector3 (- z) 0 z)),
              fillLight := Some (set_position fill (Vector3 z 0 z)),
              backLight := Some (set_position back (Vector3 z 0 (- z)))\<rparr>)"
    and "fit_moved (fitCameraToObject eng cam obj lts) =
      (let z = vz (cam_position (fit_camera (fitCameraToObject eng cam obj lts)))
       in [set_position key (Vector3 (- z) 0 z), set_position fill (Vector3 z 0 z),
           set_position back (Vector3 z 0 (- z))])"
  using assms
  by (simp_all add: fitCameraToObject_def resetObjectPosition_def Let_def split: prod.splits)

subsection \<open>The completion function of the mesh load\<close>

lemma write_back_snoc:
  "oid obj' = oid c \<Longrightarrow> write_back obj' (cs @ [c]) = write_back obj' cs @ [obj']"
  by (simp add: write_back_def)

lemma map_oid_write_back: "map oid (write_back obj cs) = map oid cs"
  by (induction cs) (simp_all add: write_back_def)

lemma write_back_all_simps:
  "write_back_all [] cs = cs"
  "write_back_all (m # ms) cs = write_back_all ms (write_back m cs)"
  by (simp_all add: write_back_all_def)

lemma map_oid_write_back_all: "map oid (write_back_all ms cs) = map oid cs"
  by (induction ms arbitrary: cs) (simp_all add: write_back_all_simps map_oid_write_back)

lemma write_back_all_append:
  "write_back_all ms (as @ bs) = write_back_all ms as @ write_back_all ms bs"
  by (induction ms arbitrary: as bs) (simp_all add: write_back_all_simps write_back_def)

lemma write_back_all_snoc:
  assumes "oid obj' = oid c"
  shows "write_back obj' (write_back_all ms (cs @ [c])) =
           write_back obj' (write_back_all ms cs) @ [obj']"
proof -
  have "map oid (write_back_all ms [c]) = [oid c]"
    by (simp add: map_oid_write_back_all)
  then obtain d where d: "write_back_all ms [c] = [d]" "oid d = oid c"
    by auto
  show ?thesis
    using assms d by (simp add: write_back_all_append write_back_def)
qed

lemma traverse_oid: "oid (traverse (applyMaterial mat) obj) = oid obj"
  by (cases obj) (simp add: applyMaterial_def set_material_def Let_def)

lemma painted_oid:
  "oid (if materials l = None then traverse (applyMaterial mat) obj else obj) = oid obj"
  by (simp add: traverse_oid)

text \<open>The object as the completion function leaves it: painted, then re-centred.\<close>

lemma loadObj_onLoad_raises:
  assumes "keyLight (lights (scene w)) = None"
  shows "loadObj_onLoad eng l mat cb obj w =
    (w\<lparr>scene := (scene w)
        \<lparr>children :=
           write_back (fit_object (fitCameraToObject eng (camera (scene w))
               (if materials l = None then traverse (applyMaterial mat) obj else obj) (lights (scene w))))
             (children (scene w)) @
           [fit_object (fitCameraToObject eng (camera (scene w))
               (if materials l = None then traverse (applyMaterial mat) obj else obj) (lights (scene w)))],
         camera := fit_camera (fitCameraToObject eng (camera (scene w))
               (if materials l = None then traverse (applyMaterial mat) obj else obj) (lights (scene w)))\<rparr>\<rparr>,
     Some (TypeError ''keyLight''))"
proof -
  let ?obj1 = "if materials l = None then traverse (applyMaterial mat) obj else obj"
  let ?r = "fitCameraToObject eng (camera (scene w)) ?obj1 (lights (scene w))"
  have e: "fit_error ?r = Some (TypeError ''keyLight'')" and k: "fit_lights ?r = lights (scene w)"
    and m: "fit_moved ?r = []"
    using fit_no_key [OF assms] by simp_all
  have o: "oid (fit_object ?r) = oid ?obj1"
    by (simp only: fit_object_reset reset_fields)
  have wb: "write_back (fit_object ?r) (write_back_all ms (children (scene w) @ [?obj1])) =
        write_back (fit_object ?r) (write_back_all ms (children (scene w))) @ [fit_object ?r]" for ms
    using o by (rule write_back_all_snoc)
  show ?thesis
    unfolding loadObj_onLoad_def Let_def add_def
    using wb [of "[]"] by (simp add: e k m write_back_all_simps del: fit_object_reset)
qed

lemma loadObj_onLoad_completes:
  assumes "keyLight (lights (scene w)) = Some key" and "fillLight (lights (scene w)) = Some fill"
    and "backLight (lights (scene w)) = Some back"
  shows "loadObj_onLoad eng l mat cb obj w =
    (let r = fitCameraToObject eng (camera (scene w))
               (if materials l = None then traverse (applyMaterial mat) obj else obj) (lights (scene w))
     in (\<lparr>scene = (scene w)
           \<lparr>children := write_back (fit_object r)
                          (write_back_all (fit_moved r) (children (scene w))) @ [fit_object r],
            camera := fit_camera r, lights := fit_lights r, locked := False\<rparr>,
          effects = effects w @ (case cb of None \<Rightarrow> [] | Some c \<Rightarrow> [Call c (ObjArg (fit_object r))]) @
            [DispatchEvent (element (scene w)) ''loaded'' (LoadedDetail (fit_object r))]\<rparr>,
         None))"
proof -
  let ?obj1 = "if materials l = None then traverse (applyMaterial mat) obj else obj"
  let ?r = "fitCameraToObject eng (camera (scene w)) ?obj1 (lights (scene w))"
  have e: "fit_error ?r = None"
    using fit_all_lights(1) [OF assms] .
  have o: "oid (fit_object ?r) = oid ?obj1"
    by (simp only: fit_object_reset reset_fields)
  have wb: "write_back (fit_object ?r) (write_back_all ms (children (scene w) @ [?obj1])) =
        write_back (fit_object ?r) (write_back_all ms (children (scene w))) @ [fit_object ?r]" for ms
    using o by (rule write_back_all_snoc)
  show ?thesis
    unfolding loadObj_onLoad_def Let_def add_def
    by (cases cb) (simp_all add: e wb invoke_def emitEvent_def)
qed

subsection \<open>Materials after the traversal\<close>

lemma applyMaterial_fields:
  "oid (applyMaterial mat n) = oid n"
  "isMesh (applyMaterial mat n) = isMesh n"
  "material (applyMaterial mat n) = (if isMesh n then Some mat else material n)"
  by (simp_all add: applyMaterial_def set_material_def)

lemma nodes_traverse_material:
  "map material (nodes (traverse (applyMaterial mat) obj)) =
     map (\<lambda>n. if isMesh n then Some mat else material n) (nodes obj)"
proof (induction obj)
  case (Object3D i t m ma p r cs)
  have "map material (concat (map nodes (map (traverse (applyMaterial mat)) cs))) =
        map (\<lambda>n. if isMesh n then Some mat else material n) (concat (map nodes cs))"
    using Object3D by (induction cs) simp_all
  then show ?case
    by (simp add: applyMaterial_fields Let_def)
qed

lemma nodes_traverse_isMesh:
  "map isMesh (nodes (traverse (applyMaterial mat) obj)) = map isMesh (nodes obj)"
proof (induction obj)
  case (Object3D i t m ma p r cs)
  have "map isMesh (concat (map nodes (map (traverse (applyMaterial mat)) cs))) =
        map isMesh (concat (map nodes cs))"
    using Object3D by (induction cs) simp_all
  then show ?case
    by (simp add: applyMaterial_fields Let_def)
qed

lemma nodes_reset:
  "map material (nodes (snd (resetObjectPosition eng b obj))) = map material (nodes obj)"
  "map isMesh (nodes (snd (resetObjectPosition eng b obj))) = map isMesh (nodes obj)"
  by (cases obj; simp add: resetObjectPosition_def Let_def)+

subsection \<open>A load from call to last callback\<close>

lemma notifications_append: "notifications (a @ b) = notifications a @ notifications b"
  by (induction a rule: notifications.induct) simp_all

lemma run_mtl_silent:
  "\<forall>m. MtlDone m \<notin> set sigs \<Longrightarrow> run eng (MTL_load mu l u cb) sigs w = (w, None)"
proof (induction sigs)
  case Nil
  then show ?case by simp
next
  case (Cons sig sigs)
  then have "deliver eng (MTL_load mu l u cb) sig w = (w, MTL_load mu l u cb, None)"
    by (cases sig) auto
  with Cons show ?case by simp
qed

lemma run_obj_progress:
  "run eng (OBJ_load u l m cb) (map Progress xs @ rest) w =
     run eng (OBJ_load u l m cb) rest
       (w\<lparr>effects := effects w @
          map (\<lambda>x. DispatchEvent (element (scene w)) ''loading''
                 (if xhr_total x = 0 then LoadingDetail 0 100
                  else LoadingDetail (xhr_loaded x) (xhr_total x))) xs\<rparr>)"
proof (induction xs arbitrary: w)
  case Nil
  then show ?case by simp
next
  case (Cons x xs)
  show ?case
    by (simp add: Cons loadObj_onProgress_def emitEvent_def)
qed

lemma loadObject_unlocked_plain:
  "\<not> locked (scene w) \<Longrightarrow> \<not> truthy materialUrl \<Longrightarrow>
   loadObject w url materialUrl cb =
     (ReturnLoader new_OBJLoader, w\<lparr>scene := (scene w)\<lparr>locked := True\<rparr>\<rparr>,
      Some (OBJ_load url new_OBJLoader (MeshPhongMaterial 12303308) cb))"
  by (simp add: loadObject_def loadObj_def Let_def)

lemma loadObject_unlocked_material:
  "\<not> locked (scene w) \<Longrightarrow> truthy materialUrl \<Longrightarrow>
   loadObject w url materialUrl cb =
     (ReturnLoader new_OBJLoader, w\<lparr>scene := (scene w)\<lparr>locked := True\<rparr>\<rparr>,
      Some (MTL_load (the materialUrl) new_OBJLoader url cb))"
  by (simp add: loadObject_def Let_def)

lemma failed_load_trace:
  assumes "\<not> locked (scene w)" and "\<not> truthy materialUrl"
  shows "load eng w url materialUrl cb (map Progress xs @ [Failed err]) =
    (\<lparr>scene = (scene w)\<lparr>locked := True\<rparr>,
      effects = effects w @
          map (\<lambda>x. DispatchEvent (element (scene w)) ''loading''
                 (if xhr_total x = 0 then LoadingDetail 0 100
                  else LoadingDetail (xhr_loaded x) (xhr_total x))) xs @
          [DispatchEvent (element (scene w)) ''error'' (ErrorDetail err)] @
          (case cb of None \<Rightarrow> [] | Some c \<Rightarrow> [Call c (ErrArg err)])\<rparr>, None)"
  by (cases cb)
     (simp_all add: load_def loadObject_unlocked_plain [OF assms] run_obj_progress
        loadObj_onError_def invoke_def emitEvent_def)

lemma failed_load_notifications:
  assumes "\<not> locked (scene w)" and "\<not> truthy materialUrl"
  shows "notifications (effects (fst (load eng w url materialUrl cb (map Progress xs @ [Failed err])))) =
     notifications (effects w) @
     map (\<lambda>x. (''loading'', if xhr_total x = 0 then LoadingDetail 0 100
                  else LoadingDetail (xhr_loaded x) (xhr_total x))) xs @
     [(''error'', ErrorDetail err)]"
proof -
  have m: "notifications (map (\<lambda>x. DispatchEvent el ''loading'' (f x)) xs) =
        map (\<lambda>x. (''loading'', f x)) xs" for el f
    by (induction xs) simp_all
  show ?thesis
    by (cases cb) (simp_all add: failed_load_trace [OF assms] notifications_append m)
qed

lemma completed_load_notifications:
  assumes "\<not> locked (scene w)" and "\<not> truthy materialUrl"
    and "keyLight (lights (scene w)) = Some key" and "fillLight (lights (scene w)) = Some fill"
    and "backLight (lights (scene w)) = Some back"
  shows "\<exists>obj'. notifications (effects (fst (load eng w url materialUrl cb (map Progress xs @ [ObjDone obj])))) =
     notifications (effects w) @
     map (\<lambda>x. (''loading'', if xhr_total x = 0 then LoadingDetail 0 100
                  else LoadingDetail (xhr_loaded x) (xhr_total x))) xs @
     [(''loaded'', LoadedDetail obj')] \<and>
     obj' \<in> set (children (scene (fst (load eng w url materialUrl cb (map Progress xs @ [ObjDone obj]))))) \<and>
     \<not> locked (scene (fst (load eng w url materialUrl cb (map Progress xs @ [ObjDone obj]))))"
proof -
  have m: "notifications (map (\<lambda>x. DispatchEvent el ''loading'' (f x)) xs) =
        map (\<lambda>x. (''loading'', f x)) xs" for el f
    by (induction xs) simp_all
  let ?w1 = "w\<lparr>scene := (scene w)\<lparr>locked := True\<rparr>,
      effects := effects w @
          map (\<lambda>x. DispatchEvent (element (scene w)) ''loading''
                 (if xhr_total x = 0 then LoadingDetail 0 100
                  else LoadingDetail (xhr_loaded x) (xhr_total x))) xs\<rparr>"
  have l: "keyLight (lights (scene ?w1)) = Some key" "fillLight (lights (scene ?w1)) = Some fill"
     "backLight (lights (scene ?w1)) = Some back"
    using assms by simp_all
  show ?thesis
    by (cases cb)
       (simp_all add: load_def loadObject_unlocked_plain [OF assms(1,2)] run_obj_progress
          loadObj_onLoad_completes [OF l] Let_def notifications_append m)
qed

lemma loadObject_touches_lock_only:
  "\<not> locked (scene w) \<Longrightarrow>
   fst (snd (loadObject w url materialUrl cb)) = w\<lparr>scene := (scene w)\<lparr>locked := True\<rparr>\<rparr>"
  by (simp add: loadObject_def Let_def)

lemma loadObj_onLoad_children:
  "children (scene (fst (loadObj_onLoad eng l mat cb obj w))) =
     write_back (fit_object (fitCameraToObject eng (camera (scene w))
         (if materials l = None then traverse (applyMaterial mat) obj else obj) (lights (scene w))))
       (write_back_all (fit_moved (fitCameraToObject eng (camera (scene w))
         (if materials l = None then traverse (applyMaterial mat) obj else obj) (lights (scene w))))
         (children (scene w))) @
     [fit_object (fitCameraToObject eng (camera (scene w))
         (if materials l = None then traverse (applyMaterial mat) obj else obj) (lights (scene w)))]"
proof -
  let ?obj1 = "if materials l = None then traverse (applyMaterial mat) obj else obj"
  let ?r = "fitCameraToObject eng (camera (scene w)) ?obj1 (lights (scene w))"
  have o: "oid (fit_object ?r) = oid ?obj1"
    by (simp only: fit_object_reset reset_fields)
  have wb: "write_back (fit_object ?r) (write_back_all ms (children (scene w) @ [?obj1])) =
        write_back (fit_object ?r) (write_back_all ms (children (scene w))) @ [fit_object ?r]" for ms
    using o by (rule write_back_all_snoc)
  show ?thesis
    unfolding loadObj_onLoad_def Let_def add_def
    by (cases "fit_error ?r"; cases cb) (simp_all add: wb invoke_def emitEvent_def)
qed

lemma loadObj_onLoad_effects:
  "effects (fst (loadObj_onLoad eng l mat cb obj w)) =
     effects w @
     (case snd (loadObj_onLoad eng l mat cb obj w) of
        Some e \<Rightarrow> []
      | None \<Rightarrow>
          (case cb of None \<Rightarrow> []
           | Some c \<Rightarrow> [Call c (ObjArg (last (children (scene (fst (loadObj_onLoad eng l mat cb obj w))))))]) @
          [DispatchEvent (element (scene w)) ''loaded''
             (LoadedDetail (last (children (scene (fst (loadObj_onLoad eng l mat cb obj w))))))])"
proof -
  let ?obj1 = "if materials l = None then traverse (applyMaterial mat) obj else obj"
  let ?r = "fitCameraToObject eng (camera (scene w)) ?obj1 (lights (scene w))"
  have o: "oid (fit_object ?r) = oid ?obj1"
    by (simp only: fit_object_reset reset_fields)
  have wb: "write_back (fit_object ?r) (write_back_all ms (children (scene w) @ [?obj1])) =
        write_back (fit_object ?r) (write_back_all ms (children (scene w))) @ [fit_object ?r]" for ms
    using o by (rule write_back_all_snoc)
  show ?thesis
    unfolding loadObj_onLoad_def Let_def add_def
    by (cases "fit_error ?r"; cases cb) (simp_all add: wb invoke_def emitEvent_def)
qed

text \<open>
  The notifications of a load whose parse completes, on any scene: those of the progress
  calls, then \<^verbatim>\<open>"loaded"\<close> once, or nothing when the completion function raised.
\<close>

lemma load_notifications_order:
  assumes "\<not> locked (scene w)" and "\<not> truthy materialUrl"
  shows "\<exists>terminal.
     notifications (effects (fst (load eng w url materialUrl cb (map Progress xs @ [ObjDone obj])))) =
       notifications (effects w) @
       map (\<lambda>x. (''loading'', if xhr_total x = 0 then LoadingDetail 0 100
                  else LoadingDetail (xhr_loaded x) (xhr_total x))) xs @ terminal \<and>
     (case snd (load eng w url materialUrl cb (map Progress xs @ [ObjDone obj])) of
        Some e \<Rightarrow> terminal = []
      | None \<Rightarrow> terminal = [(''loaded'', LoadedDetail (last (children (scene (fst
          (load eng w url materialUrl cb (map Progress xs @ [ObjDone obj])))))))])"
proof -
  have m: "notifications (map (\<lambda>x. DispatchEvent el ''loading'' (f x)) xs) =
        map (\<lambda>x. (''loading'', f x)) xs" for el f
    by (induction xs) simp_all
  let ?grey = "MeshPhongMaterial 12303308"
  let ?w1 = "w\<lparr>scene := (scene w)\<lparr>locked := True\<rparr>,
      effects := effects w @
          map (\<lambda>x. DispatchEvent (element (scene w)) ''loading''
                 (if xhr_total x = 0 then LoadingDetail 0 100
                  else LoadingDetail (xhr_loaded x) (xhr_total x))) xs\<rparr>"
  have l: "load eng w url materialUrl cb (map Progress xs @ [ObjDone obj]) =
      loadObj_onLoad eng new_OBJLoader ?grey cb obj ?w1"
    by (simp add: load_def loadObject_unlocked_plain [OF assms] run_obj_progress
          split: prod.splits option.splits)
  show ?thesis
    unfolding l
    by (subst loadObj_onLoad_effects)
       (cases "snd (loadObj_onLoad eng new_OBJLoader ?grey cb obj ?w1)"; cases cb;
        simp add: notifications_append m)
qed

subsection \<open>What one pass of clearScene keeps\<close>

lemma clearScene_keeps_others:
  "distinct (map oid (children s)) \<Longrightarrow>
   filter (\<lambda>c. otype c \<noteq> ''Group'') (children (clearScene s)) =
     filter (\<lambda>c. otype c \<noteq> ''Group'') (children s)"
  by (simp add: clearScene_survivors survivors_keeps_others)

lemma clearScene_frame:
  "camera (clearScene s) = camera s" "lights (clearScene s) = lights s"
  "element (clearScene s) = element s" "locked (clearScene s) = locked s"
  by (simp_all add: clearScene_def)

lemmas load_eval = load_def loadObject_def truthy_def loadObj_def new_OBJLoader_def
  loadObj_onError_def loadObj_onProgress_def invoke_def emitEvent_def Let_def
  fresh_world_def prepareScene_locked prepareScene_element prepareScene_lights

text \<open>
  The lights the fit moves are moved among the children too, when they are children: in
  the sample scene whose back and fill lights are the first two children, a completed
  load leaves these two at (z,0,-z) and (z,0,z).
\<close>

lemma completed_load_moves_lights_among_children:
  "map oid (children (scene (fst (load cube_engine lit_world ''model.obj'' None None
      [ObjDone cube])))) = [1, 2, 3, 10] \<and>
   map position (children (scene (fst (load cube_engine lit_world ''model.obj'' None None
      [ObjDone cube])))) =
     [Vector3 (max \<bar>2 / 2 * tan (45 * 2)\<bar> 2 * 1.5) 0 (- (max \<bar>2 / 2 * tan (45 * 2)\<bar> 2 * 1.5)),
      Vector3 (max \<bar>2 / 2 * tan (45 * 2)\<bar> 2 * 1.5) 0 (max \<bar>2 / 2 * tan (45 * 2)\<bar> 2 * 1.5),
      Vector3 0 0 0, Vector3 0 0 0]"
  by (simp add: load_def loadObject_def truthy_def loadObj_def new_OBJLoader_def Let_def
        lit_world_def lit_scene_fields loadObj_onLoad_completes fit_all_lights fit_camera_position
        fit_object_reset prepareScene_camera setCamera_def cube_engine_def cube_def
        write_back_all_simps write_back_def set_position_def new_light_def
        resetObjectPosition_def applyMaterial_def set_material_def
        prepareScene_def setLights_def)

section \<open>The claims\<close>

text \<open>
  C1. The lock is to be released on both ways a load can end. The completion function
  does release it (see \<open>loadObj_onLoad_completes\<close>); the error function does not. On a
  freshly prepared scene a load whose mesh fetch fails dispatches \<^verbatim>\<open>"error"\<close>, calls the
  caller's function with the error, and leaves \<^verbatim>\<open>locked\<close> true, so that the next
  \<^verbatim>\<open>loadObject\<close> on the scene returns \<^verbatim>\<open>false\<close>.
\<close>

theorem failed_load_leaves_session_locked:
  "locked (scene (fst (load cube_engine fresh_world ''model.obj'' None (Some ''done'')
       [Failed (LoaderError ''not found'')]))) \<and>
   effects (fst (load cube_engine fresh_world ''model.obj'' None (Some ''done'')
       [Failed (LoaderError ''not found'')])) =
     [DispatchEvent container ''error'' (ErrorDetail (LoaderError ''not found'')),
      Call ''done'' (ErrArg (LoaderError ''not found''))] \<and>
   fst (loadObject (fst (load cube_engine fresh_world ''model.obj'' None (Some ''done'')
       [Failed (LoaderError ''not found'')])) ''model.obj'' None (Some ''done'')) = ReturnFalse"
  by (simp add: load_eval)

text \<open>
  C2. On a locked session \<^verbatim>\<open>loadObject\<close> returns \<^verbatim>\<open>false\<close> and changes nothing: scene,
  camera, lights and lock are as before, nothing is dispatched, and no request is left
  with a loader, so whatever the loaders do afterwards reaches no function of this call.
\<close>

theorem loadObject_locked_rejects:
  assumes "locked (scene w)"
  shows "loadObject w url materialUrl callback = (ReturnFalse, w, None) \<and>
         load eng w url materialUrl callback sigs = (w, None)"
  using assms by (simp add: loadObject_def load_def Let_def)

theorem loadObject_locked_rejects_witness:
  "locked (scene (fresh_world\<lparr>scene := (scene fresh_world)\<lparr>locked := True\<rparr>\<rparr>)) \<and>
   loadObject (fresh_world\<lparr>scene := (scene fresh_world)\<lparr>locked := True\<rparr>\<rparr>)
       ''model.obj'' (Some ''model.mtl'') (Some ''done'') =
     (ReturnFalse, fresh_world\<lparr>scene := (scene fresh_world)\<lparr>locked := True\<rparr>\<rparr>, None) \<and>
   load cube_engine (fresh_world\<lparr>scene := (scene fresh_world)\<lparr>locked := True\<rparr>\<rparr>)
       ''model.obj'' (Some ''model.mtl'') (Some ''done'') [MtlDone \<lparr>mtl_name = ''m'', preloaded = False\<rparr>, ObjDone cube] =
     (fresh_world\<lparr>scene := (scene fresh_world)\<lparr>locked := True\<rparr>\<rparr>, None)"
proof -
  have h: "locked (scene (fresh_world\<lparr>scene := (scene fresh_world)\<lparr>locked := True\<rparr>\<rparr>))"
    by simp
  show ?thesis
    using h loadObject_locked_rejects [OF h, of "''model.obj''" "Some ''model.mtl''" "Some ''done''"
       cube_engine "[MtlDone \<lparr>mtl_name = ''m'', preloaded = False\<rparr>, ObjDone cube]"]
    by simp
qed

text \<open>
  C3. A completed mesh parse is to add the object, fit the camera, release the lock, call
  the caller's function and dispatch \<^verbatim>\<open>"loaded"\<close>. With a light set that holds the key,
  fill and back lights all of this happens (\<open>loadObj_onLoad_completes\<close>). The light set
  \<^verbatim>\<open>prepareScene\<close> stores holds the ambient light only: there the camera fit raises at
  its first access to a light, after the object has been added and the camera moved, and
  the lock stays, the caller's function is not called and nothing is dispatched.
\<close>

theorem completed_load_on_prepared_scene_raises:
  "snd (load cube_engine fresh_world ''model.obj'' None (Some ''done'') [ObjDone cube]) =
     Some (TypeError ''keyLight'') \<and>
   locked (scene (fst (load cube_engine fresh_world ''model.obj'' None (Some ''done'') [ObjDone cube]))) \<and>
   effects (fst (load cube_engine fresh_world ''model.obj'' None (Some ''done'') [ObjDone cube])) = [] \<and>
   map oid (children (scene (fst (load cube_engine fresh_world ''model.obj'' None (Some ''done'')
       [ObjDone cube])))) = [1, 2, 3, 10]"
  by (simp add: load_eval loadObj_onLoad_raises map_oid_write_back prepareScene_oids
        fit_object_reset reset_fields applyMaterial_fields cube_def)

text \<open>
  C4. The \<^verbatim>\<open>"loading"\<close> notifications of a load are to be followed by exactly one
  terminal notification, \<^verbatim>\<open>"loaded"\<close> or \<^verbatim>\<open>"error"\<close>. A failed load does end in exactly
  one \<^verbatim>\<open>"error"\<close> and no \<^verbatim>\<open>"loaded"\<close> (\<open>failed_load_notifications\<close>), and a completed one
  on a full light set in exactly one \<^verbatim>\<open>"loaded"\<close> (\<open>completed_load_notifications\<close>). On
  a freshly prepared scene a completed load has no terminal notification at all: the
  completion function raises before it dispatches. Nor has a load with a material URL
  whose material fetch fails: the material loader was given no error function.
\<close>

theorem completed_load_on_prepared_scene_has_no_terminal_notification:
  "notifications (effects (fst (load cube_engine fresh_world ''model.obj'' None None
      [Progress \<lparr>xhr_loaded = 512, xhr_total = 1024\<rparr>, ObjDone cube]))) =
     [(''loading'', LoadingDetail 512 1024)] \<and>
   snd (load cube_engine fresh_world ''model.obj'' None None
      [Progress \<lparr>xhr_loaded = 512, xhr_total = 1024\<rparr>, ObjDone cube]) = Some (TypeError ''keyLight'') \<and>
   notifications (effects (fst (load cube_engine fresh_world ''model.obj'' (Some ''model.mtl'') None
      [Failed (LoaderError ''not found'')]))) = []"
  by (simp add: load_eval loadObj_onLoad_raises)

text \<open>
  C5. One call of \<^verbatim>\<open>clearScene\<close> is to remove every child of type \<^verbatim>\<open>'Group'\<close> and leave
  the others. The others do stay (\<open>clearScene_keeps_others\<close>), but of two groups added
  one after the other to a prepared scene the second is still there after the call.
\<close>

theorem clearScene_leaves_second_group:
  "otype (group 10) = ''Group'' \<and> otype (group 11) = ''Group'' \<and>
   children (clearScene (add (group 11) (add (group 10) (prepareScene container)))) =
     children (prepareScene container) @ [group 11]"
  by (simp add: clearScene_def forEach_def forEach_from.simps add_def remove_def splice1_def group_def
     prepareScene_def setLights_def Let_def new_light_def)


text \<open>
  C7. The camera fit is to put the camera at z = max(|size.y / 2 * tan(fov * 2)|, size.z)
  * 1.5 and the key, fill and back lights at (-z,0,z), (z,0,z) and (z,0,-z). The camera
  is always put there (\<open>fit_camera_position\<close>), and so are the lights of a full light set
  (\<open>fit_all_lights\<close>). With the camera of a prepared scene, wherever the controller has
  turned it to, and the light set of a prepared scene, the z of the camera is assigned,
  then the fit raises at the key light and no light is placed.
\<close>

theorem fitCameraToObject_on_prepared_scene_raises:
  "fit_error (fitCameraToObject cube_engine ((camera (prepareScene container))\<lparr>cam_position := p\<rparr>)
      cube (lights (prepareScene container))) = Some (TypeError ''keyLight'') \<and>
   fit_lights (fitCameraToObject cube_engine ((camera (prepareScene container))\<lparr>cam_position := p\<rparr>)
      cube (lights (prepareScene container))) = lights (prepareScene container) \<and>
   keyLight (lights (prepareScene container)) = None \<and>
   vz (cam_position (fit_camera (fitCameraToObject cube_engine
      ((camera (prepareScene container))\<lparr>cam_position := p\<rparr>) cube
      (lights (prepareScene container))))) = max \<bar>2 / 2 * tan (45 * 2)\<bar> 2 * 1.5"
  by (simp add: prepareScene_lights prepareScene_camera setCamera_def fit_no_key fit_camera_position
        cube_engine_def)

text \<open>
  C8, as amended. For a load without a material URL on an unlocked session, when the
  mesh parse completes, the last child of the scene is the parsed object, with the same
  nodes; every mesh node of it carries the grey material, whatever it carried before, and
  every other node carries what it carried before.
\<close>

theorem load_without_materials_paints_every_mesh:
  assumes "\<not> locked (scene w)" and "\<not> truthy materialUrl"
  shows
    "oid (last (children (scene (fst (load eng w url materialUrl callback
        (map Progress xs @ [ObjDone obj])))))) = oid obj \<and>
     map isMesh (nodes (last (children (scene (fst (load eng w url materialUrl callback
        (map Progress xs @ [ObjDone obj]))))))) = map isMesh (nodes obj) \<and>
     map material (nodes (last (children (scene (fst (load eng w url materialUrl callback
        (map Progress xs @ [ObjDone obj]))))))) =
       map (\<lambda>n. if isMesh n then Some (MeshPhongMaterial 12303308) else material n) (nodes obj)"
proof -
  let ?grey = "MeshPhongMaterial 12303308"
  let ?w1 = "w\<lparr>scene := (scene w)\<lparr>locked := True\<rparr>,
      effects := effects w @
          map (\<lambda>x. DispatchEvent (element (scene w)) ''loading''
                 (if xhr_total x = 0 then LoadingDetail 0 100
                  else LoadingDetail (xhr_loaded x) (xhr_total x))) xs\<rparr>"
  let ?obj' = "fit_object (fitCameraToObject eng (camera (scene ?w1))
         (if materials new_OBJLoader = None then traverse (applyMaterial ?grey) obj else obj)
         (lights (scene ?w1)))"
  have l: "load eng w url materialUrl callback (map Progress xs @ [ObjDone obj]) =
      loadObj_onLoad eng new_OBJLoader ?grey callback obj ?w1"
    by (simp add: load_def loadObject_unlocked_plain [OF assms] run_obj_progress
          split: prod.splits option.splits)
  have ch: "last (children (scene (fst (load eng w url materialUrl callback
        (map Progress xs @ [ObjDone obj]))))) = ?obj'"
    unfolding l by (subst loadObj_onLoad_children) simp
  have n: "materials new_OBJLoader = None"
    by (simp add: new_OBJLoader_def)
  have m0: "oid ?obj' = oid obj"
    by (simp add: n fit_object_reset reset_fields traverse_oid)
  have m1: "map isMesh (nodes ?obj') = map isMesh (nodes obj)"
    by (simp add: n fit_object_reset nodes_reset nodes_traverse_isMesh)
  have m2: "map material (nodes ?obj') =
       map (\<lambda>n. if isMesh n then Some ?grey else material n) (nodes obj)"
    by (simp add: n fit_object_reset nodes_reset nodes_traverse_material)
  show ?thesis
    unfolding ch using m0 m1 m2 by simp
qed

theorem load_without_materials_paints_every_mesh_witness:
  "\<not> locked (scene lit_world) \<and> \<not> truthy None \<and>
   oid (last (children (scene (fst (load cube_engine lit_world ''model.obj'' None (Some ''done'')
        (map Progress [] @ [ObjDone cube])))))) = oid cube \<and>
   map isMesh (nodes (last (children (scene (fst (load cube_engine lit_world ''model.obj'' None
        (Some ''done'') (map Progress [] @ [ObjDone cube]))))))) = map isMesh (nodes cube) \<and>
   map material (nodes (last (children (scene (fst (load cube_engine lit_world ''model.obj'' None
        (Some ''done'') (map Progress [] @ [ObjDone cube]))))))) =
     map (\<lambda>n. if isMesh n then Some (MeshPhongMaterial 12303308) else material n) (nodes cube)"
proof -
  have h1: "\<not> locked (scene lit_world)"
    by (simp add: lit_world_def lit_scene_fields)
  have h2: "\<not> truthy None"
    by (simp add: truthy_def)
  show ?thesis
    using h1 h2
      load_without_materials_paints_every_mesh [OF h1 h2, of cube_engine "''model.obj''" "Some ''done''" "[]" cube]
    by blast
qed

text \<open>
  C8 as stated lets a mesh node that has a material keep it. The mesh of the sample file
  has one, and after a load that completes without error it carries the grey one.
\<close>

theorem load_without_materials_overwrites_material:
  "map material (nodes cube) = [None, Some (LoadedMaterial ''wood'')] \<and>
   map isMesh (nodes cube) = [False, True] \<and>
   snd (load cube_engine lit_world ''model.obj'' None None [ObjDone cube]) = None \<and>
   map material (nodes (last (children (scene (fst
      (load cube_engine lit_world ''model.obj'' None None [ObjDone cube])))))) =
     [None, Some (MeshPhongMaterial 12303308)]"
  by (simp add: load_def loadObject_def truthy_def loadObj_def new_OBJLoader_def Let_def
        lit_world_def lit_scene_fields
        loadObj_onLoad_completes fit_object_reset nodes_reset applyMaterial_fields cube_def)

text \<open>
  C9. A progress callback of the mesh loader dispatches exactly one \<^verbatim>\<open>"loading"\<close> event on
  the container and changes nothing else; its payload is \<^verbatim>\<open>{loaded: 0, total: 100}\<close> when
  the reported total is 0, and the reported \<^verbatim>\<open>{loaded, total}\<close> otherwise.
\<close>

theorem progress_notification_payload:
  "fst (deliver eng (loadObj objLoader url callback) (Progress x) w) =
     w\<lparr>effects := effects w @
        [DispatchEvent (element (scene w)) ''loading''
           (if xhr_total x = 0 then LoadingDetail 0 100
            else LoadingDetail (xhr_loaded x) (xhr_total x))]\<rparr>"
  by (simp add: loadObj_def loadObj_onProgress_def emitEvent_def)

text \<open>
  C10. For a load with a material URL on an unlocked session, as long as the material
  loader does not call its completion function, whatever else it reports, nothing is
  dispatched, the caller's function is not called, and the session stays locked.
\<close>

theorem material_load_without_completion_is_silent:
  assumes "\<not> locked (scene w)" and "truthy materialUrl" and "\<forall>m. MtlDone m \<notin> set sigs"
  shows "load eng w url materialUrl callback sigs = (w\<lparr>scene := (scene w)\<lparr>locked := True\<rparr>\<rparr>, None) \<and>
         locked (scene (fst (load eng w url materialUrl callback sigs))) \<and>
         effects (fst (load eng w url materialUrl callback sigs)) = effects w"
  using assms
  by (simp add: load_def loadObject_unlocked_material run_mtl_silent)

theorem material_load_without_completion_is_silent_witness:
  "\<not> locked (scene fresh_world) \<and> truthy (Some ''model.mtl'') \<and>
   (\<forall>m. MtlDone m \<notin> set [Progress \<lparr>xhr_loaded = 0, xhr_total = 0\<rparr>, Failed (LoaderError ''not found'')]) \<and>
   load cube_engine fresh_world ''model.obj'' (Some ''model.mtl'') (Some ''done'')
       [Progress \<lparr>xhr_loaded = 0, xhr_total = 0\<rparr>, Failed (LoaderError ''not found'')] =
     (fresh_world\<lparr>scene := (scene fresh_world)\<lparr>locked := True\<rparr>\<rparr>, None) \<and>
   locked (scene (fst (load cube_engine fresh_world ''model.obj'' (Some ''model.mtl'') (Some ''done'')
       [Progress \<lparr>xhr_loaded = 0, xhr_total = 0\<rparr>, Failed (LoaderError ''not found'')]))) \<and>
   effects (fst (load cube_engine fresh_world ''model.obj'' (Some ''model.mtl'') (Some ''done'')
       [Progress \<lparr>xhr_loaded = 0, xhr_total = 0\<rparr>, Failed (LoaderError ''not found'')])) = []"
proof -
  have h1: "\<not> locked (scene fresh_world)"
    by (simp add: fresh_world_def prepareScene_locked)
  have h2: "truthy (Some ''model.mtl'')"
    by (simp add: truthy_def)
  have h3: "\<forall>m. MtlDone m \<notin> set [Progress \<lparr>xhr_loaded = 0, xhr_total = 0\<rparr>, Failed (LoaderError ''not found'')]"
    by simp
  have e: "effects fresh_world = []"
    by (simp add: fresh_world_def)
  show ?thesis
    using h1 h2 h3 e
      material_load_without_completion_is_silent [OF h1 h2 h3, of cube_engine "''model.obj''" "Some ''done''"]
    by simp
qed

end
